theory Spec2Isabelle
  imports Main
begin

section \<open>Constants of RedshiftBulkInsert.js\<close>

text \<open>
  The module constants of \<^verbatim>\<open>lib/RedshiftBulkInsert.js\<close> (lines 16 to 20). A JavaScript
  string is modelled as a list of characters; the backslash is \<open>CHR 0x5C\<close>, the
  line feed \<open>CHR 0x0A\<close> and the single quote \<open>CHR 0x27\<close>.
\<close>

definition DELIMITER :: string where
  "DELIMITER = [CHR ''|'']"

definition ESCAPE :: string where
  "ESCAPE = [CHR 0x5C]"

definition NEWLINE :: string where
  "NEWLINE = [CHR 0x0A]"

definition NULL :: string where
  "NULL = [CHR 0x5C, CHR ''N'']"

definition SUFFIX :: string where
  "SUFFIX = ''.log''"

definition QUOTE :: string where
  "QUOTE = [CHR 0x27]"

section \<open>JavaScript values and their string conversion\<close>

text \<open>
  The scalar values a row can hold. A finite number is modelled when it is
  integer-valued; \<open>NaN\<close> and the two infinities are values of their own. Fractional
  doubles are outside the model, and the string conversion below prints every decimal
  digit of an integer, as JavaScript does up to \<open>2^53\<close> in magnitude.
\<close>

datatype jsval =
    JNull
  | JUndefined
  | JString string
  | JBool bool
  | JNaN
  | JInfinity bool
  | JInt int

definition digit :: "nat \<Rightarrow> char" where
  "digit d = ''0123456789'' ! d"

fun dec :: "nat \<Rightarrow> string" where
  "dec n = (if n < 10 then [digit n] else dec (n div 10) @ [digit (n mod 10)])"

declare dec.simps [simp del]

text \<open>\<^verbatim>\<open>value + ''\<close> for a value that is neither a string, null nor undefined.\<close>

fun toString :: "jsval \<Rightarrow> string" where
  "toString JNull = ''null''"
| "toString JUndefined = ''undefined''"
| "toString (JString s) = s"
| "toString (JBool b) = (if b then ''true'' else ''false'')"
| "toString JNaN = ''NaN''"
| "toString (JInfinity neg) = (if neg then ''-Infinity'' else ''Infinity'')"
| "toString (JInt i) = (if i < 0 then CHR ''-'' # dec (nat (- i)) else dec (nat i))"

text \<open>
  \<^verbatim>\<open>s.replace(/c/g, rep)\<close> for a one-character pattern and a replacement without
  \<^verbatim>\<open>$\<close>: every occurrence of the character is replaced, left to right.
\<close>

fun replace_all :: "char \<Rightarrow> string \<Rightarrow> string \<Rightarrow> string" where
  "replace_all c rep [] = []"
| "replace_all c rep (x # xs) = (if x = c then rep @ replace_all c rep xs else x # replace_all c rep xs)"

text \<open>\<^verbatim>\<open>Array.prototype.join\<close> on an array of strings.\<close>

fun join :: "string list \<Rightarrow> string \<Rightarrow> string" where
  "join [] sep = []"
| "join [x] sep = x"
| "join (x # y # ys) sep = x @ sep @ join (y # ys) sep"

section \<open>The line encoder\<close>

text \<open>\<^verbatim>\<open>_escapeValue\<close> (lines 197 to 205).\<close>

definition escapeValue :: "jsval \<Rightarrow> string" where
  "escapeValue v =
     (if v = JNull \<or> v = JUndefined then NULL
      else case v of
        JString s \<Rightarrow>
          replace_all (CHR ''|'') [CHR 0x5C, CHR ''|''] (replace_all (CHR 0x5C) [CHR 0x5C, CHR 0x5C] s)
      | _ \<Rightarrow> toString v)"

text \<open>
  \<^verbatim>\<open>row[i]\<close>: an index past the end of a JavaScript array reads \<^verbatim>\<open>undefined\<close>.
\<close>

definition row_at :: "jsval list \<Rightarrow> nat \<Rightarrow> jsval" where
  "row_at row i = (if i < length row then row ! i else JUndefined)"

text \<open>The \<^verbatim>\<open>for\<close> loop of \<^verbatim>\<open>_rowToLine\<close> (lines 188 to 192), pushing onto \<^verbatim>\<open>lineBuff\<close>.\<close>

function rowToLine_loop :: "jsval list \<Rightarrow> nat \<Rightarrow> nat \<Rightarrow> string list \<Rightarrow> string list" where
  "rowToLine_loop row i l lineBuff =
     (if i < l then rowToLine_loop row (i + 1) l (lineBuff @ [escapeValue (row_at row i)])
      else lineBuff)"
  by pat_completeness auto
termination
  by (relation "measure (\<lambda>(row, i, l, lineBuff). l - i)") auto

declare rowToLine_loop.simps [simp del]

text \<open>\<^verbatim>\<open>_rowToLine\<close> (lines 186 to 195).\<close>

definition rowToLine :: "jsval list \<Rightarrow> string" where
  "rowToLine row = join (rowToLine_loop row 0 (length row) []) DELIMITER"

section \<open>The loader, its collaborators and its callbacks\<close>

text \<open>
  An error object handed to a callback is abstracted to its message; \<open>None\<close> is
  JavaScript's \<^verbatim>\<open>null\<close> error. The second argument of a completion callback is opaque
  to the loader and only passed on.
\<close>

type_synonym err = string

datatype payload = Undefined | FileBody string | S3Data string | QueryResult string

text \<open>
  The instance fields of \<^verbatim>\<open>RedshiftBulkInsert\<close> set by the constructor (lines 24 to 62).
  \<^verbatim>\<open>_numberOfEventsInFile\<close> starts at 0 and is only incremented or reset to 0, so it
  is a natural number; \<^verbatim>\<open>activeFlushOps\<close> is decremented as well and is an integer.
  \<^verbatim>\<open>ref\<close> is the handle returned by the last \<^verbatim>\<open>setTimeout\<close>.
\<close>

record loader =
  tableName :: string
  fieldList :: "string list"
  pathToLogs :: string
  idleFlushPeriod :: int
  threshold :: int
  awsBucketName :: string
  awsAccessKeyId :: string
  awsSecretAccessKey :: string
  pid :: nat
  numberOfEventsInFile :: nat
  activeFlushOps :: int
  fileName :: string
  ref :: nat

text \<open>
  The arguments of \<^verbatim>\<open>this.emit('flush', err, result, '', start, this)\<close>, in order.
  The reference \<^verbatim>\<open>this\<close> is represented by the loader's fields at the time of the
  emission.
\<close>

record flush_event =
  ev_err :: "err option"
  ev_result :: payload
  ev_third :: string
  ev_start :: nat
  ev_loader :: loader

text \<open>
  The functions bound with \<^verbatim>\<open>_.bind\<close> and handed to a collaborator, with the arguments
  bound at that time: file name and start time stamp.
\<close>

datatype callback =
    SendToS3 string nat
  | OnSentToS3 string nat
  | OnSentCopyToRedshift nat
  | OnRemoved nat

text \<open>Every call the loader makes to a collaborator, to the logger or to its listeners.\<close>

datatype effect =
    FileOpen string
  | FileWrite string
  | FileSetup string
  | FileEnd
  | ReadFile string callback
  | PutObject payload string string callback
  | Unlink string callback
  | Query string callback
  | LogError err
  | Emit flush_event
  | SetTimeout nat int
  | ClearTimeout nat

text \<open>
  The loader together with the runtime around it: the calls made so far in program order,
  the callbacks of the I/O requests that have not completed, the timers that are armed
  (each calls \<^verbatim>\<open>flush\<close> when it fires), and the next timer handle.
\<close>

record world =
  ldr :: loader
  effects :: "effect list"
  pending :: "callback list"
  timers :: "nat list"
  nextHandle :: nat

text \<open>
  \<^verbatim>\<open>path.join\<close> of a directory and a plain file name (normalisation of the directory
  part is not modelled).
\<close>

definition path_join :: "string \<Rightarrow> string \<Rightarrow> string" where
  "path_join dir file = dir @ ''/'' @ file"

text \<open>
  \<^verbatim>\<open>_getLogFileName\<close> (lines 64 to 66); the argument is the value \<^verbatim>\<open>Date.now()\<close> returns,
  in milliseconds.
\<close>

definition getLogFileName :: "loader \<Rightarrow> nat \<Rightarrow> string" where
  "getLogFileName l now = tableName l @ ''_'' @ dec now @ ''_'' @ dec (pid l) @ SUFFIX"

text \<open>\<^verbatim>\<open>_getCopyQuery\<close> (lines 137 to 158).\<close>

definition getCopyQuery :: "loader \<Rightarrow> string \<Rightarrow> string" where
  "getCopyQuery l file =
     ''COPY '' @ tableName l @ '' ('' @ join (fieldList l) '', '' @ '')'' @ '' FROM '' @ QUOTE
       @ ''s3://'' @ awsBucketName l @ ''/'' @ file @ QUOTE @ '' CREDENTIALS ''
       @ (QUOTE @ ''aws_access_key_id='') @ awsAccessKeyId l @ '';'' @ ''aws_secret_access_key=''
       @ awsSecretAccessKey l @ QUOTE @ '' ESCAPE''"

text \<open>\<^verbatim>\<open>startIdleFlushMonitor\<close> (lines 212 to 215).\<close>

definition startIdleFlushMonitor :: "world \<Rightarrow> world" where
  "startIdleFlushMonitor w =
     w\<lparr>ldr := (ldr w)\<lparr>ref := nextHandle w\<rparr>,
       effects := effects w @ [SetTimeout (nextHandle w) (idleFlushPeriod (ldr w))],
       timers := timers w @ [nextHandle w],
       nextHandle := nextHandle w + 1\<rparr>"

text \<open>\<^verbatim>\<open>clearTimeout(h)\<close>: the timer, if still armed, will not fire.\<close>

definition clearTimeout :: "nat \<Rightarrow> world \<Rightarrow> world" where
  "clearTimeout h w = w\<lparr>effects := effects w @ [ClearTimeout h], timers := removeAll h (timers w)\<rparr>"

text \<open>
  The body of the \<^verbatim>\<open>if\<close> in \<^verbatim>\<open>flush\<close> (lines 81 to 95): the rotation. The two
  numbers are the readings of \<^verbatim>\<open>Date.now()\<close> at line 86 (through \<^verbatim>\<open>_getLogFileName\<close>)
  and at line 91.
\<close>

definition rotate :: "nat \<times> nat \<Rightarrow> world \<Rightarrow> world" where
  "rotate ts w =
     (let l = ldr w;
          oldFileName = fileName l;
          newFileName = getLogFileName l (fst ts);
          sendToS3 = SendToS3 oldFileName (snd ts)
      in w\<lparr>ldr := l\<lparr>activeFlushOps := activeFlushOps l + 1,
                     fileName := newFileName,
                     numberOfEventsInFile := 0\<rparr>,
           effects := effects w @
             [FileSetup (path_join (pathToLogs l) newFileName),
              ReadFile (path_join (pathToLogs l) oldFileName) sendToS3],
           pending := pending w @ [sendToS3]\<rparr>)"

text \<open>\<^verbatim>\<open>flush\<close> (lines 77 to 99).\<close>

definition flush :: "nat \<times> nat \<Rightarrow> world \<Rightarrow> world" where
  "flush ts w =
     startIdleFlushMonitor (if numberOfEventsInFile (ldr w) > 0 then rotate ts w else w)"

text \<open>\<^verbatim>\<open>_decrimentActiveFlushOpsAndEmitFlushEvent\<close> (lines 167 to 170).\<close>

definition decrimentActiveFlushOpsAndEmitFlushEvent ::
    "nat \<Rightarrow> err option \<Rightarrow> payload \<Rightarrow> world \<Rightarrow> world" where
  "decrimentActiveFlushOpsAndEmitFlushEvent start e result w =
     (let l = (ldr w)\<lparr>activeFlushOps := activeFlushOps (ldr w) - 1\<rparr>
      in w\<lparr>ldr := l,
           effects := effects w @
             [Emit \<lparr>ev_err = e, ev_result = result, ev_third = [], ev_start = start,
                    ev_loader = l\<rparr>]\<rparr>)"

text \<open>\<^verbatim>\<open>_sendToS3\<close> (lines 101 to 114), the callback of \<^verbatim>\<open>readFile\<close>.\<close>

definition sendToS3 :: "string \<Rightarrow> nat \<Rightarrow> err option \<Rightarrow> payload \<Rightarrow> world \<Rightarrow> world" where
  "sendToS3 file start e body w =
     (case e of
        Some x \<Rightarrow>
          decrimentActiveFlushOpsAndEmitFlushEvent start e body
            (w\<lparr>effects := effects w @ [LogError x]\<rparr>)
      | None \<Rightarrow>
          w\<lparr>effects := effects w @
               [PutObject body file (awsBucketName (ldr w)) (OnSentToS3 file start)],
            pending := pending w @ [OnSentToS3 file start]\<rparr>)"

text \<open>\<^verbatim>\<open>_removeLogFile\<close> (lines 131 to 135).\<close>

definition removeLogFile :: "string \<Rightarrow> nat \<Rightarrow> world \<Rightarrow> world" where
  "removeLogFile file start w =
     w\<lparr>effects := effects w @ [Unlink (path_join (pathToLogs (ldr w)) file) (OnRemoved start)],
       pending := pending w @ [OnRemoved start]\<rparr>"

text \<open>\<^verbatim>\<open>_onSentToS3\<close> (lines 116 to 129), the callback of \<^verbatim>\<open>putObject\<close>.\<close>

definition onSentToS3 :: "string \<Rightarrow> nat \<Rightarrow> err option \<Rightarrow> payload \<Rightarrow> world \<Rightarrow> world" where
  "onSentToS3 file start e data w =
     (case e of
        Some x \<Rightarrow>
          decrimentActiveFlushOpsAndEmitFlushEvent start e data
            (w\<lparr>effects := effects w @ [LogError x]\<rparr>)
      | None \<Rightarrow>
          (let w1 = removeLogFile file start w
           in w1\<lparr>effects := effects w1 @
                    [Query (getCopyQuery (ldr w1) file) (OnSentCopyToRedshift start)],
                 pending := pending w1 @ [OnSentCopyToRedshift start]\<rparr>))"

text \<open>\<^verbatim>\<open>_onSentCopyToRedshift\<close> (lines 160 to 165), the callback of the query.\<close>

definition onSentCopyToRedshift :: "nat \<Rightarrow> err option \<Rightarrow> payload \<Rightarrow> world \<Rightarrow> world" where
  "onSentCopyToRedshift start e result w =
     decrimentActiveFlushOpsAndEmitFlushEvent start e result
       (case e of Some x \<Rightarrow> w\<lparr>effects := effects w @ [LogError x]\<rparr> | None \<Rightarrow> w)"

text \<open>\<^verbatim>\<open>_checkThreshold\<close> (lines 179 to 184).\<close>

definition checkThreshold :: "nat \<times> nat \<Rightarrow> world \<Rightarrow> world" where
  "checkThreshold ts w =
     (if threshold (ldr w) \<le> int (numberOfEventsInFile (ldr w))
      then flush ts (clearTimeout (ref (ldr w)) w)
      else w)"

text \<open>\<^verbatim>\<open>insert\<close> (lines 172 to 177).\<close>

definition insert_row :: "jsval list \<Rightarrow> nat \<times> nat \<Rightarrow> world \<Rightarrow> world" where
  "insert_row row ts w =
     checkThreshold ts
       (w\<lparr>effects := effects w @ [FileWrite (rowToLine row @ NEWLINE)],
          ldr := (ldr w)\<lparr>numberOfEventsInFile := numberOfEventsInFile (ldr w) + 1\<rparr>\<rparr>)"

text \<open>\<^verbatim>\<open>close\<close> (lines 207 to 210).\<close>

definition close :: "world \<Rightarrow> world" where
  "close w = (let w1 = clearTimeout (ref (ldr w)) w in w1\<lparr>effects := effects w1 @ [FileEnd]\<rparr>)"

text \<open>
  The options object read by the constructor. \<^verbatim>\<open>_.isNumber\<close> decides whether
  \<^verbatim>\<open>idleFlushPeriod\<close> and \<^verbatim>\<open>threshold\<close> are taken or defaulted, so both are optional.
\<close>

record options =
  opt_tableName :: string
  opt_fields :: "string list"
  opt_pathToLogs :: string
  opt_idleFlushPeriod :: "int option"
  opt_threshold :: "int option"
  opt_awsBucketName :: string
  opt_awsAccessKeyId :: string
  opt_awsSecretAccessKey :: string

text \<open>
  The constructor (lines 24 to 62), for a process identifier and the reading of
  \<^verbatim>\<open>Date.now()\<close> at line 54.
\<close>

definition RedshiftBulkInsert :: "options \<Rightarrow> nat \<Rightarrow> nat \<Rightarrow> world" where
  "RedshiftBulkInsert opts p now =
     (let l0 = \<lparr>tableName = opt_tableName opts,
                 fieldList = opt_fields opts,
                 pathToLogs = opt_pathToLogs opts,
                 idleFlushPeriod = (case opt_idleFlushPeriod opts of Some n \<Rightarrow> n | None \<Rightarrow> 10000),
                 threshold = (case opt_threshold opts of Some n \<Rightarrow> n | None \<Rightarrow> 1000),
                 awsBucketName = opt_awsBucketName opts,
                 awsAccessKeyId = opt_awsAccessKeyId opts,
                 awsSecretAccessKey = opt_awsSecretAccessKey opts,
                 pid = p,
                 numberOfEventsInFile = 0,
                 activeFlushOps = 0,
                 fileName = [],
                 ref = 0\<rparr>;
          name = getLogFileName l0 now
      in startIdleFlushMonitor
           \<lparr>ldr = l0\<lparr>fileName := name\<rparr>,
            effects = [FileOpen (path_join (opt_pathToLogs opts) name)],
            pending = [],
            timers = [],
            nextHandle = 0\<rparr>)"

section \<open>The event loop\<close>

text \<open>A callback called with the two arguments its collaborator passes.\<close>

fun invoke :: "callback \<Rightarrow> err option \<Rightarrow> payload \<Rightarrow> world \<Rightarrow> world" where
  "invoke (SendToS3 file start) e p w = sendToS3 file start e p w"
| "invoke (OnSentToS3 file start) e p w = onSentToS3 file start e p w"
| "invoke (OnSentCopyToRedshift start) e p w = onSentCopyToRedshift start e p w"
| "invoke (OnRemoved start) e p w = decrimentActiveFlushOpsAndEmitFlushEvent start e Undefined w"

text \<open>
  What can happen to a loader: a caller inserts a row, closes the loader or calls the
  public \<^verbatim>\<open>flush\<close> or the public \<^verbatim>\<open>startIdleFlushMonitor\<close> itself; an armed timer
  fires; an outstanding I/O request (given by its position among the outstanding ones)
  completes with an error or a result.
  The numbers after a row, a timer or a call of \<^verbatim>\<open>flush\<close> are the readings of the clock
  a rotation would take.
\<close>

datatype input =
    Insert "jsval list" nat nat
  | TimerFires nat nat nat
  | Complete nat "err option" payload
  | Close
  | CallFlush nat nat
  | CallStartIdleFlushMonitor

fun step :: "input \<Rightarrow> world \<Rightarrow> world option" where
  "step (Insert row t1 t2) w = Some (insert_row row (t1, t2) w)"
| "step (TimerFires h t1 t2) w =
     (if h \<in> set (timers w)
      then Some (flush (t1, t2) (w\<lparr>timers := removeAll h (timers w)\<rparr>))
      else None)"
| "step (Complete i e p) w =
     (if i < length (pending w)
      then Some (invoke (pending w ! i) e p
                  (w\<lparr>pending := take i (pending w) @ drop (Suc i) (pending w)\<rparr>))
      else None)"
| "step Close w = Some (close w)"
| "step (CallFlush t1 t2) w = Some (flush (t1, t2) w)"
| "step CallStartIdleFlushMonitor w = Some (startIdleFlushMonitor w)"

fun run :: "input list \<Rightarrow> world \<Rightarrow> world option" where
  "run [] w = Some w"
| "run (i # ins) w = (case step i w of None \<Rightarrow> None | Some w1 \<Rightarrow> run ins w1)"

text \<open>The events emitted so far, oldest first.\<close>

fun emitted :: "effect list \<Rightarrow> flush_event list" where
  "emitted [] = []"
| "emitted (Emit e # es) = e # emitted es"
| "emitted (x # es) = emitted es"

text \<open>The rotations made so far: each redirects the file writer once.\<close>

fun rotations :: "effect list \<Rightarrow> nat" where
  "rotations [] = 0"
| "rotations (FileSetup p # es) = Suc (rotations es)"
| "rotations (x # es) = rotations es"

text \<open>The paths whose deletion has been requested so far, oldest first.\<close>

fun unlinks :: "effect list \<Rightarrow> string list" where
  "unlinks [] = []"
| "unlinks (Unlink path cb # es) = path # unlinks es"
| "unlinks (x # es) = unlinks es"

text \<open>
  The deletion a completion asks for: only the completion of an upload without error asks
  for one, of the file of its operation.
\<close>

fun deletion_of :: "callback \<Rightarrow> err option \<Rightarrow> loader \<Rightarrow> string list" where
  "deletion_of (OnSentToS3 file start) None l = [path_join (pathToLogs l) file]"
| "deletion_of cb e l = []"

text \<open>The start time stamp bound into a callback.\<close>

fun cb_start :: "callback \<Rightarrow> nat" where
  "cb_start (SendToS3 file start) = start"
| "cb_start (OnSentToS3 file start) = start"
| "cb_start (OnSentCopyToRedshift start) = start"
| "cb_start (OnRemoved start) = start"

text \<open>A caller inserting one row after the other, each with the clock readings of its call.\<close>

fun insert_rows :: "(jsval list \<times> nat \<times> nat) list \<Rightarrow> world \<Rightarrow> world" where
  "insert_rows [] w = w"
| "insert_rows ((row, ts) # rs) w = insert_rows rs (insert_row row ts w)"

text \<open>
  \<^verbatim>\<open>flush\<close> is entered from \<^verbatim>\<open>_checkThreshold\<close> and from the idle timer, and
  \<^verbatim>\<open>startIdleFlushMonitor\<close> from the constructor and from \<^verbatim>\<open>flush\<close>; both are also
  public methods. \<open>from_outside\<close> marks their calls from outside the loader.
\<close>

fun from_outside :: "input \<Rightarrow> bool" where
  "from_outside (CallFlush t1 t2) = True"
| "from_outside CallStartIdleFlushMonitor = True"
| "from_outside _ = False"

text \<open>At most the timer the loader holds the handle of is armed.\<close>

definition timer_inv :: "world \<Rightarrow> bool" where
  "timer_inv w = (timers w = [] \<or> timers w = [ref (ldr w)])"

section \<open>The formats in the words of the specification\<close>

text \<open>Fields joined by a separator: the first field, then each further one after a separator.\<close>

fun joined_by :: "string \<Rightarrow> string list \<Rightarrow> string" where
  "joined_by sep [] = []"
| "joined_by sep (f # fs) = f @ concat (map (\<lambda>g. sep @ g) fs)"

text \<open>Each literal occurrence of a character replaced by a string.\<close>

definition each_replaced :: "char \<Rightarrow> string \<Rightarrow> string \<Rightarrow> string" where
  "each_replaced c rep s = concat (map (\<lambda>x. if x = c then rep else [x]) s)"

text \<open>
  The line format of the specification: null or absent renders as the null token, a
  string has its backslashes doubled first and then its delimiters escaped, any other
  scalar is its string conversion.
\<close>

fun spec_field :: "jsval \<Rightarrow> string" where
  "spec_field JNull = NULL"
| "spec_field JUndefined = NULL"
| "spec_field (JString s) =
     each_replaced (CHR ''|'') (ESCAPE @ DELIMITER) (each_replaced (CHR 0x5C) (ESCAPE @ ESCAPE) s)"
| "spec_field v = toString v"

definition spec_line :: "jsval list \<Rightarrow> string" where
  "spec_line row = joined_by DELIMITER (map spec_field row) @ NEWLINE"

text \<open>
  The shape of the bulk-load command, with the text between the table name and the
  opening parenthesis as a parameter: the specification writes none.
\<close>

definition copy_shape :: "string \<Rightarrow> loader \<Rightarrow> string \<Rightarrow> string" where
  "copy_shape gap l key =
     ''COPY '' @ tableName l @ gap @ ''('' @ joined_by '', '' (fieldList l) @ '') FROM ''
       @ QUOTE @ ''s3://'' @ awsBucketName l @ ''/'' @ key @ QUOTE
       @ '' CREDENTIALS '' @ QUOTE @ ''aws_access_key_id='' @ awsAccessKeyId l
       @ '';aws_secret_access_key='' @ awsSecretAccessKey l @ QUOTE @ '' ESCAPE''"

definition spec_copy_command :: "loader \<Rightarrow> string \<Rightarrow> string" where
  "spec_copy_command l key = copy_shape [] l key"

section \<open>The retry policy\<close>

text \<open>
  Modelled from the spec: \<^verbatim>\<open>lib/BulkInsertRetryPolicy.js\<close> is not among the sources, only
  its test is. The policy is configured with \<^verbatim>\<open>maxRetries\<close>, \<^verbatim>\<open>retryCalculation\<close>,
  \<^verbatim>\<open>timeSlot\<close> and \<^verbatim>\<open>maxDelay\<close>. On a failure it computes
  \<^verbatim>\<open>delay = min(maxDelay, retryCalculation(attempt, timeSlot))\<close>; if the attempt counter is
  below \<^verbatim>\<open>maxRetries\<close> it schedules a call of \<^verbatim>\<open>flush\<close> after the delay, and otherwise
  it does not reschedule.
\<close>

record 'd retry_options =
  maxRetries :: nat
  retryCalculation :: "nat \<Rightarrow> 'd \<Rightarrow> 'd"
  timeSlot :: 'd
  maxDelay :: 'd

datatype 'd decision = NextFlush 'd | NoRetry

definition onFlushError :: "('d::linorder) retry_options \<Rightarrow> nat \<Rightarrow> 'd decision" where
  "onFlushError opts attempt =
     (let delay = min (maxDelay opts) (retryCalculation opts attempt (timeSlot opts))
      in if attempt < maxRetries opts then NextFlush delay else NoRetry)"

text \<open>
  Modelled from the spec: a lineage of flush operations that always fails. Every
  scheduled flush fails again and is observed with the attempt counter one higher;
  the result is the list of the delays of the flushes scheduled, in order.
\<close>

function always_failing :: "('d::linorder) retry_options \<Rightarrow> nat \<Rightarrow> 'd list" where
  "always_failing opts attempt =
     (case onFlushError opts attempt of
        NextFlush delay \<Rightarrow> delay # always_failing opts (attempt + 1)
      | NoRetry \<Rightarrow> [])"
  by pat_completeness auto
termination
  by (relation "measure (\<lambda>(opts, attempt). maxRetries opts - attempt)")
     (auto simp: onFlushError_def Let_def split: if_splits)

declare always_failing.simps [simp del]

section \<open>A concrete loader\<close>

text \<open>A loader for table \<open>t\<close> that rotates at every row.\<close>

definition example_options :: options where
  "example_options =
     \<lparr>opt_tableName = ''t'', opt_fields = [''a'', ''b''], opt_pathToLogs = ''/var/log'',
      opt_idleFlushPeriod = None, opt_threshold = Some 1, opt_awsBucketName = ''bk'',
      opt_awsAccessKeyId = ''ID'', opt_awsSecretAccessKey = ''SECRET''\<rparr>"

definition example_world :: world where
  "example_world = RedshiftBulkInsert example_options 7 1"

section \<open>Decimal rendering\<close>

lemma of_char_digit: "d < 10 \<Longrightarrow> of_char (digit d) = 48 + d"
proof -
  assume "d < 10"
  then have "d \<in> {0, 1, 2, 3, 4, 5, 6, 7, 8, 9}" by auto
  then show ?thesis by (auto simp: digit_def)
qed

lemma digit_not_N: "d < 10 \<Longrightarrow> digit d \<noteq> CHR ''N''"
proof
  assume d: "d < 10" and e: "digit d = CHR ''N''"
  from e have "of_char (digit d) = (of_char (CHR ''N'') :: nat)" by simp
  with d show False by (simp add: of_char_digit)
qed

lemma digit_inj: "a < 10 \<Longrightarrow> b < 10 \<Longrightarrow> digit a = digit b \<Longrightarrow> a = b"
proof -
  assume a: "a < 10" and b: "b < 10" and e: "digit a = digit b"
  from e have "of_char (digit a) = (of_char (digit b) :: nat)" by simp
  with a b show "a = b" by (simp add: of_char_digit)
qed

lemma dec_small: "n < 10 \<Longrightarrow> dec n = [digit n]"
  by (subst dec.simps) simp

lemma dec_nonempty: "dec n \<noteq> []"
  by (subst dec.simps) simp

lemma last_dec: "last (dec n) = digit (n mod 10)"
  by (subst dec.simps) simp

lemma butlast_dec: "butlast (dec n) = (if n < 10 then [] else dec (n div 10))"
  by (subst dec.simps) simp

text \<open>Two numbers with the same decimal digits are equal.\<close>

lemma dec_inj: "dec n = dec m \<Longrightarrow> n = m"
proof (induction n arbitrary: m rule: dec.induct)
  case (1 n)
  from "1.prems" have "digit (n mod 10) = digit (m mod 10)"
    using last_dec by metis
  then have units: "n mod 10 = m mod 10" by (intro digit_inj) auto
  from "1.prems" have front: "butlast (dec n) = butlast (dec m)" by simp
  show ?case
  proof (cases "n < 10")
    case True
    with front have "m < 10"
      using dec_nonempty [of "m div 10"] by (auto simp: butlast_dec split: if_splits)
    with True units show ?thesis by simp
  next
    case False
    with front have "\<not> m < 10" and "dec (n div 10) = dec (m div 10)"
      using dec_nonempty [of "n div 10"] by (auto simp: butlast_dec split: if_splits)
    with False "1.IH" have "n div 10 = m div 10" by simp
    with units show ?thesis by (metis div_mult_mod_eq)
  qed
qed

lemma toString_JInt_not_NULL: "toString (JInt i) \<noteq> NULL"
proof
  assume "toString (JInt i) = NULL"
  then have "last (toString (JInt i)) = CHR ''N''" by (simp add: NULL_def)
  moreover have "last (toString (JInt i)) = digit (nat \<bar>i\<bar> mod 10)"
    by (simp add: last_dec dec_nonempty)
  ultimately show False using digit_not_N [of "nat \<bar>i\<bar> mod 10"] by simp
qed

section \<open>The line encoder meets the line format\<close>

lemma replace_all_each: "replace_all c rep s = each_replaced c rep s"
  by (induction s) (auto simp: each_replaced_def)

lemma join_joined_by: "join fs sep = joined_by sep fs"
  by (induction fs sep rule: join.induct) auto

lemma escaped_string_not_NULL:
  "each_replaced (CHR ''|'') (ESCAPE @ DELIMITER) (each_replaced (CHR 0x5C) (ESCAPE @ ESCAPE) s) \<noteq> NULL"
  by (cases s) (auto simp: each_replaced_def NULL_def ESCAPE_def DELIMITER_def)

lemma escapeValue_spec: "escapeValue v = spec_field v"
  by (cases v) (simp_all add: escapeValue_def replace_all_each ESCAPE_def DELIMITER_def)

text \<open>The loop leaves the escaped values of the row, in order, after what was pushed before.\<close>

lemma rowToLine_loop_map:
  "i \<le> length row \<Longrightarrow>
   rowToLine_loop row i (length row) lineBuff = lineBuff @ map escapeValue (drop i row)"
proof (induction row i "length row" lineBuff rule: rowToLine_loop.induct)
  case (1 row i lineBuff)
  show ?case
  proof (cases "i < length row")
    case True
    then have "drop i row = row ! i # drop (Suc i) row" by (simp add: Cons_nth_drop_Suc)
    with True 1 show ?thesis by (subst rowToLine_loop.simps) (simp add: row_at_def)
  next
    case False
    with 1 show ?thesis by (subst rowToLine_loop.simps) simp
  qed
qed

lemma rowToLine_spec: "rowToLine row = joined_by DELIMITER (map spec_field row)"
proof -
  have "rowToLine_loop row 0 (length row) [] = map escapeValue row"
    using rowToLine_loop_map [of 0 row "[]"] by simp
  also have "map escapeValue row = map spec_field row"
    by (simp add: escapeValue_spec)
  finally show ?thesis by (simp add: rowToLine_def join_joined_by)
qed

section \<open>What an insertion and a flush do to the loader\<close>

lemma insert_row_below:
  "\<not> threshold (ldr w) \<le> int (numberOfEventsInFile (ldr w)) + 1 \<Longrightarrow>
   insert_row row ts w =
     w\<lparr>effects := effects w @ [FileWrite (rowToLine row @ NEWLINE)],
       ldr := (ldr w)\<lparr>numberOfEventsInFile := numberOfEventsInFile (ldr w) + 1\<rparr>\<rparr>"
  by (simp add: insert_row_def checkThreshold_def)

lemma insert_row_reached:
  "threshold (ldr w) \<le> int (numberOfEventsInFile (ldr w)) + 1 \<Longrightarrow>
   insert_row row ts w =
     w\<lparr>ldr := (ldr w)\<lparr>activeFlushOps := activeFlushOps (ldr w) + 1,
                       fileName := getLogFileName (ldr w) (fst ts),
                       numberOfEventsInFile := 0,
                       ref := nextHandle w\<rparr>,
       effects := effects w @
         [FileWrite (rowToLine row @ NEWLINE),
          ClearTimeout (ref (ldr w)),
          FileSetup (path_join (pathToLogs (ldr w)) (getLogFileName (ldr w) (fst ts))),
          ReadFile (path_join (pathToLogs (ldr w)) (fileName (ldr w)))
            (SendToS3 (fileName (ldr w)) (snd ts)),
          SetTimeout (nextHandle w) (idleFlushPeriod (ldr w))],
       pending := pending w @ [SendToS3 (fileName (ldr w)) (snd ts)],
       timers := removeAll (ref (ldr w)) (timers w) @ [nextHandle w],
       nextHandle := nextHandle w + 1\<rparr>"
  by (simp add: insert_row_def checkThreshold_def flush_def rotate_def startIdleFlushMonitor_def
      clearTimeout_def Let_def getLogFileName_def)

lemma flush_empty: "numberOfEventsInFile (ldr w) = 0 \<Longrightarrow> flush ts w = startIdleFlushMonitor w"
  by (simp add: flush_def)

lemma flush_nonempty:
  "0 < numberOfEventsInFile (ldr w) \<Longrightarrow> flush ts w = startIdleFlushMonitor (rotate ts w)"
  by (simp add: flush_def)

lemma timers_flush: "timers (flush ts w) = timers w @ [nextHandle w]"
  by (simp add: flush_def rotate_def startIdleFlushMonitor_def Let_def)

lemma ref_flush: "ref (ldr (flush ts w)) = nextHandle w"
  by (simp add: flush_def rotate_def startIdleFlushMonitor_def Let_def)

lemma rotations_append: "rotations (xs @ ys) = rotations xs + rotations ys"
  by (induction xs rule: rotations.induct) auto

lemma emitted_append: "emitted (xs @ ys) = emitted xs @ emitted ys"
  by (induction xs rule: emitted.induct) auto

lemmas callback_defs = sendToS3_def onSentToS3_def onSentCopyToRedshift_def removeLogFile_def
  decrimentActiveFlushOpsAndEmitFlushEvent_def

lemma timers_invoke: "timers (invoke cb e p w) = timers w"
  by (cases cb; cases e) (simp_all add: callback_defs Let_def)

lemma ref_invoke: "ref (ldr (invoke cb e p w)) = ref (ldr w)"
  by (cases cb; cases e) (simp_all add: callback_defs Let_def)


lemma rotations_invoke: "rotations (effects (invoke cb e p w)) = rotations (effects w)"
  by (cases cb; cases e) (simp_all add: callback_defs Let_def rotations_append)

section \<open>Claims about the line encoder\<close>

text \<open>
  Claim C6. For every row, the encoded line is the positional values joined by the
  delimiter \<open>|\<close>, where a null or absent value renders as the null token, a string
  value has each backslash doubled first and then each \<open>|\<close> preceded by a backslash;
  and what \<^verbatim>\<open>insert\<close> writes for the row is that line followed by one line feed.
\<close>

theorem insert_writes_spec_line:
  "rowToLine row = joined_by DELIMITER (map spec_field row)
   \<and> take (Suc (length (effects w))) (effects (insert_row row ts w))
       = effects w @ [FileWrite (spec_line row)]"
proof (cases "threshold (ldr w) \<le> int (numberOfEventsInFile (ldr w)) + 1")
  case True
  then show ?thesis by (simp add: insert_row_reached spec_line_def rowToLine_spec)
next
  case False
  then show ?thesis by (simp add: insert_row_below spec_line_def rowToLine_spec)
qed

theorem insert_writes_spec_line_witness:
  "rowToLine [JNull, JString ''x|y'']
     = [CHR 0x5C, CHR ''N'', CHR ''|'', CHR ''x'', CHR 0x5C, CHR ''|'', CHR ''y'']
   \<and> take 3 (effects (insert_row [JString ''a'', JString ''b''] (5, 6) example_world))
       = effects example_world @ [FileWrite (''a|b'' @ [CHR 0x0A])]"
proof -
  have "length (effects example_world) = 2"
    by (simp add: example_world_def RedshiftBulkInsert_def startIdleFlushMonitor_def Let_def)
  then show ?thesis
    using insert_writes_spec_line [where row = "[JNull, JString ''x|y'']" and w = example_world]
      insert_writes_spec_line [where row = "[JString ''a'', JString ''b'']"
        and w = example_world and ts = "(5, 6)"]
    by (simp add: spec_line_def each_replaced_def NULL_def ESCAPE_def DELIMITER_def NEWLINE_def)
qed

text \<open>
  Claim C10. The null token is produced exactly for null and undefined: a string never
  encodes to it, the empty string encodes to the empty field, and every other scalar that
  is not a string (0, false and NaN among them) encodes to its string conversion.
\<close>

theorem null_token_only_for_null_and_undefined:
  "(escapeValue v = NULL \<longleftrightarrow> v = JNull \<or> v = JUndefined)
   \<and> escapeValue (JString []) = []
   \<and> escapeValue (JString []) \<noteq> NULL
   \<and> (v \<noteq> JNull \<and> v \<noteq> JUndefined \<and> (\<forall>s. v \<noteq> JString s) \<longrightarrow> escapeValue v = toString v)
   \<and> escapeValue (JInt 0) = ''0''
   \<and> escapeValue (JBool False) = ''false''
   \<and> escapeValue JNaN = ''NaN''"
proof -
  have exact: "escapeValue v = NULL \<longleftrightarrow> v = JNull \<or> v = JUndefined"
  proof (cases v)
    case (JString s)
    then show ?thesis using escaped_string_not_NULL [of s] by (simp add: escapeValue_spec)
  next
    case (JInt i)
    then show ?thesis using toString_JInt_not_NULL [of i] by (simp add: escapeValue_spec)
  qed (simp_all add: escapeValue_spec NULL_def)
  have other: "v \<noteq> JNull \<and> v \<noteq> JUndefined \<and> (\<forall>s. v \<noteq> JString s) \<longrightarrow> escapeValue v = toString v"
    by (cases v) (simp_all add: escapeValue_def)
  have "escapeValue (JString []) = []" by (simp add: escapeValue_def)
  moreover have "escapeValue (JInt 0) = ''0''"
    by (simp add: escapeValue_def dec_small digit_def)
  moreover have "escapeValue (JBool False) = ''false''" by (simp add: escapeValue_def)
  moreover have "escapeValue JNaN = ''NaN''" by (simp add: escapeValue_def)
  ultimately show ?thesis using exact other by (simp add: NULL_def)
qed

theorem null_token_only_for_null_and_undefined_witness:
  "JInt (- 12) \<noteq> JNull \<and> JInt (- 12) \<noteq> JUndefined \<and> (\<forall>s. JInt (- 12) \<noteq> JString s)
   \<and> escapeValue (JInt (- 12)) = ''-12'' \<and> escapeValue (JInt (- 12)) \<noteq> NULL"
  using null_token_only_for_null_and_undefined [of "JInt (- 12)"]
  by (simp add: dec.simps [of 12] dec_small digit_def NULL_def)

section \<open>Claims about the bulk-load command and the file names\<close>

text \<open>
  Claim C7, as the code has it. For every configuration and rotated file name, the
  bulk-load command is \<^verbatim>\<open>COPY <table> (<field1>, <field2>, ...) FROM 's3://<bucket>/<key>'
  CREDENTIALS 'aws_access_key_id=<id>;aws_secret_access_key=<secret>' ESCAPE\<close>, with one
  space between the table name and the parenthesis and the fields joined by comma and
  space in the configured order; it is the command issued once the upload has succeeded.
\<close>

theorem copy_command_shape:
  "getCopyQuery l key = copy_shape '' '' l key
   \<and> effects (invoke (OnSentToS3 key start) None d w)
       = effects w @
           [Unlink (path_join (pathToLogs (ldr w)) key) (OnRemoved start),
            Query (copy_shape '' '' (ldr w) key) (OnSentCopyToRedshift start)]"
  by (simp add: getCopyQuery_def copy_shape_def join_joined_by onSentToS3_def removeLogFile_def
      Let_def)

theorem copy_command_shape_witness:
  "getCopyQuery (ldr example_world) ''t_1_7.log''
     = ''COPY t (a, b) FROM '' @ QUOTE @ ''s3://bk/t_1_7.log'' @ QUOTE @ '' CREDENTIALS '' @ QUOTE
         @ ''aws_access_key_id=ID;aws_secret_access_key=SECRET'' @ QUOTE @ '' ESCAPE''"
  using copy_command_shape [of "ldr example_world" "''t_1_7.log''" 0 Undefined example_world]
  by (simp add: copy_shape_def example_world_def example_options_def RedshiftBulkInsert_def
      startIdleFlushMonitor_def Let_def)

text \<open>
  The command of the code differs from the shape the specification writes, which has no
  space between the table name and the parenthesis.
\<close>

theorem copy_command_differs_from_spec_shape:
  "getCopyQuery (ldr example_world) ''t_1_7.log''
     \<noteq> spec_copy_command (ldr example_world) ''t_1_7.log''"
  by (simp add: getCopyQuery_def spec_copy_command_def copy_shape_def example_world_def
      example_options_def RedshiftBulkInsert_def startIdleFlushMonitor_def Let_def)

lemma tableName_invoke: "tableName (ldr (invoke cb e p w)) = tableName (ldr w)"
  by (cases cb; cases e) (simp_all add: callback_defs Let_def)

lemma pid_invoke: "pid (ldr (invoke cb e p w)) = pid (ldr w)"
  by (cases cb; cases e) (simp_all add: callback_defs Let_def)

lemma step_keeps_identity:
  "step i w = Some w' \<Longrightarrow> tableName (ldr w') = tableName (ldr w) \<and> pid (ldr w') = pid (ldr w)"
proof (cases i)
  case (Insert row t1 t2)
  assume "step i w = Some w'"
  with Insert show ?thesis
    by (cases "threshold (ldr w) \<le> int (numberOfEventsInFile (ldr w)) + 1")
       (auto simp: insert_row_below insert_row_reached)
next
  case (Complete n e p)
  assume "step i w = Some w'"
  with Complete show ?thesis by (auto simp: tableName_invoke pid_invoke split: if_splits)
qed (auto simp: flush_def rotate_def startIdleFlushMonitor_def close_def clearTimeout_def Let_def
      split: if_splits)

lemma run_keeps_identity:
  "run ins w = Some w' \<Longrightarrow> tableName (ldr w') = tableName (ldr w) \<and> pid (ldr w') = pid (ldr w)"
proof (induction ins arbitrary: w)
  case Nil
  then show ?case by simp
next
  case (Cons i ins)
  then show ?case by (auto split: option.splits dest!: step_keeps_identity)
qed

lemma getLogFileName_inj:
  assumes "tableName l1 = tableName l2" and "pid l1 = pid l2"
    and "getLogFileName l1 a = getLogFileName l2 b"
  shows "a = b"
proof -
  from assms have "dec a @ (''_'' @ dec (pid l2) @ SUFFIX) = dec b @ (''_'' @ dec (pid l2) @ SUFFIX)"
    by (simp add: getLogFileName_def)
  then have "dec a = dec b" by (simp only: same_append_eq append_same_eq)
  then show ?thesis by (rule dec_inj)
qed

text \<open>
  Claim C8, as the code has it. Every rotation generates a file identifier of the form
  \<^verbatim>\<open><tableName>_<epochMillis>_<processId>.log\<close> from the clock reading of the rotation;
  the table name and the process identifier of a loader never change, and two identifiers
  of the same loader are equal exactly when the two clock readings are equal. So the
  identifiers of two rotations differ whenever their clock readings differ.
\<close>

theorem log_file_name_per_clock_reading:
  "getLogFileName l now = tableName l @ ''_'' @ dec now @ ''_'' @ dec (pid l) @ ''.log''
   \<and> (0 < numberOfEventsInFile (ldr w) \<longrightarrow>
        fileName (ldr (flush (t1, t2) w)) = getLogFileName (ldr w) t1)
   \<and> (run ins w = Some w' \<longrightarrow>
        tableName (ldr w') = tableName (ldr w) \<and> pid (ldr w') = pid (ldr w))
   \<and> (tableName l1 = tableName l2 \<and> pid l1 = pid l2 \<longrightarrow>
        (getLogFileName l1 a = getLogFileName l2 b \<longleftrightarrow> a = b))"
proof -
  have "getLogFileName l now = tableName l @ ''_'' @ dec now @ ''_'' @ dec (pid l) @ ''.log''"
    by (simp add: getLogFileName_def SUFFIX_def)
  moreover have "0 < numberOfEventsInFile (ldr w) \<longrightarrow>
      fileName (ldr (flush (t1, t2) w)) = getLogFileName (ldr w) t1"
    by (simp add: flush_def rotate_def startIdleFlushMonitor_def Let_def)
  moreover have "run ins w = Some w' \<longrightarrow>
      tableName (ldr w') = tableName (ldr w) \<and> pid (ldr w') = pid (ldr w)"
    using run_keeps_identity by blast
  moreover have "tableName l1 = tableName l2 \<and> pid l1 = pid l2 \<longrightarrow>
      (getLogFileName l1 a = getLogFileName l2 b \<longleftrightarrow> a = b)"
    using getLogFileName_inj [of l1 l2 a b] by (auto simp: getLogFileName_def)
  ultimately show ?thesis by blast
qed

lemma example_world_eq:
  "example_world =
     \<lparr>ldr = \<lparr>tableName = ''t'', fieldList = [''a'', ''b''], pathToLogs = ''/var/log'',
             idleFlushPeriod = 10000, threshold = 1, awsBucketName = ''bk'',
             awsAccessKeyId = ''ID'', awsSecretAccessKey = ''SECRET'', pid = 7,
             numberOfEventsInFile = 0, activeFlushOps = 0, fileName = ''t_1_7.log'', ref = 0\<rparr>,
      effects = [FileOpen ''/var/log/t_1_7.log'', SetTimeout 0 10000],
      pending = [], timers = [0], nextHandle = 1\<rparr>"
  by (simp add: example_world_def example_options_def RedshiftBulkInsert_def
      startIdleFlushMonitor_def getLogFileName_def path_join_def SUFFIX_def Let_def
      dec_small digit_def)

lemma dec_12: "dec 12 = ''12''"
  by (simp add: dec.simps [of 12] dec_small digit_def)

theorem log_file_name_per_clock_reading_witness:
  "0 < numberOfEventsInFile (ldr (example_world\<lparr>ldr := (ldr example_world)\<lparr>numberOfEventsInFile := 1\<rparr>\<rparr>))
   \<and> fileName (ldr (flush (12, 13)
         (example_world\<lparr>ldr := (ldr example_world)\<lparr>numberOfEventsInFile := 1\<rparr>\<rparr>)))
       = ''t_12_7.log''
   \<and> run [Insert [JInt 1] 5 6] example_world = Some (insert_row [JInt 1] (5, 6) example_world)
   \<and> tableName (ldr (insert_row [JInt 1] (5, 6) example_world)) = ''t''
   \<and> pid (ldr (insert_row [JInt 1] (5, 6) example_world)) = 7
   \<and> getLogFileName (ldr example_world) 5 \<noteq> getLogFileName (ldr example_world) 8"
proof -
  let ?w = "example_world\<lparr>ldr := (ldr example_world)\<lparr>numberOfEventsInFile := 1\<rparr>\<rparr>"
  have ex: "tableName (ldr example_world) = ''t''" "pid (ldr example_world) = 7"
    by (simp_all add: example_world_eq)
  have r: "run [Insert [JInt 1] 5 6] example_world = Some (insert_row [JInt 1] (5, 6) example_world)"
    by simp
  show ?thesis
    using log_file_name_per_clock_reading [where w = ?w and ?t1.0 = 12 and ?t2.0 = 13
        and l = "ldr ?w" and now = 12 and ins = "[]" and w' = ?w
        and ?l1.0 = "ldr example_world" and ?l2.0 = "ldr example_world" and a = 5 and b = 8]
      log_file_name_per_clock_reading [where w = example_world and ins = "[Insert [JInt 1] 5 6]"
        and w' = "insert_row [JInt 1] (5, 6) example_world"
        and ?l1.0 = "ldr example_world" and ?l2.0 = "ldr example_world" and a = 5 and b = 8]
      r ex
    by (simp add: dec_12 dec_small digit_def)
qed

text \<open>
  Two rotations of one loader in the same millisecond: both generate the same identifier,
  so the claim as stated (never equal to the identifier of any other rotation) fails.
\<close>

theorem rotations_in_same_millisecond_share_file_name:
  "rotations (effects (insert_rows [([JInt 1], 5, 5)] example_world)) = 1
   \<and> rotations (effects (insert_rows [([JInt 1], 5, 5), ([JInt 2], 5, 5)] example_world)) = 2
   \<and> fileName (ldr (insert_rows [([JInt 1], 5, 5)] example_world)) = ''t_5_7.log''
   \<and> fileName (ldr (insert_rows [([JInt 1], 5, 5), ([JInt 2], 5, 5)] example_world)) = ''t_5_7.log''"
  by (simp add: example_world_eq insert_row_def checkThreshold_def flush_def rotate_def
      startIdleFlushMonitor_def clearTimeout_def getLogFileName_def SUFFIX_def Let_def
      dec_small digit_def)

section \<open>Claim about the retry policy\<close>

lemma always_failing_from:
  "attempt \<le> maxRetries opts \<Longrightarrow>
   always_failing opts attempt =
     map (\<lambda>k. min (maxDelay opts) (retryCalculation opts k (timeSlot opts)))
       [attempt..<maxRetries opts]"
proof (induction opts attempt rule: always_failing.induct)
  case (1 opts attempt)
  show ?case
  proof (cases "attempt < maxRetries opts")
    case True
    then have "[attempt..<maxRetries opts] = attempt # [attempt + 1..<maxRetries opts]"
      by (simp add: upt_conv_Cons)
    with True 1 show ?thesis
      by (subst always_failing.simps) (simp add: onFlushError_def Let_def)
  next
    case False
    with 1 show ?thesis
      by (subst always_failing.simps) (simp add: onFlushError_def Let_def)
  qed
qed

text \<open>
  Claim C9. For a retry policy with \<^verbatim>\<open>maxRetries = N\<close> observing a lineage of flush
  operations that always fails, exactly \<open>N\<close> flushes are scheduled and then scheduling
  stops; the delay before the retry with attempt counter \<open>k\<close> is
  \<^verbatim>\<open>min(maxDelay, retryCalculation(k, timeSlot))\<close>, the counter starting at 0, and no
  delay exceeds \<^verbatim>\<open>maxDelay\<close>.
\<close>

theorem always_failing_schedules_max_retries:
  "length (always_failing opts 0) = maxRetries opts
   \<and> always_failing opts 0
       = map (\<lambda>k. min (maxDelay opts) (retryCalculation opts k (timeSlot opts)))
           [0..<maxRetries opts]
   \<and> (k < maxRetries opts \<longrightarrow>
        onFlushError opts k = NextFlush (min (maxDelay opts) (retryCalculation opts k (timeSlot opts)))
        \<and> always_failing opts 0 ! k = min (maxDelay opts) (retryCalculation opts k (timeSlot opts))
        \<and> always_failing opts 0 ! k \<le> maxDelay opts)
   \<and> (maxRetries opts \<le> k \<longrightarrow> onFlushError opts k = NoRetry)"
  by (simp add: always_failing_from onFlushError_def Let_def)

theorem always_failing_schedules_max_retries_witness:
  "always_failing
     \<lparr>maxRetries = 3, retryCalculation = (\<lambda>k slot. 2 ^ k * slot), timeSlot = 100, maxDelay = 300\<rparr> 0
     = [100, 200, 300 :: int]
   \<and> onFlushError
       \<lparr>maxRetries = 3, retryCalculation = (\<lambda>k slot. 2 ^ k * slot), timeSlot = 100, maxDelay = 300\<rparr> 3
     = (NoRetry :: int decision)"
  using always_failing_schedules_max_retries
    [of "\<lparr>maxRetries = 3, retryCalculation = (\<lambda>k slot. 2 ^ k * slot), timeSlot = 100,
          maxDelay = (300 :: int)\<rparr>" 3]
  by (simp add: upt_rec)

section \<open>Claims about insertion, rotation and the idle timer\<close>







lemma effects_flush_last:
  "effects (flush ts w) =
     effects (if 0 < numberOfEventsInFile (ldr w) then rotate ts w else w)
       @ [SetTimeout (nextHandle w) (idleFlushPeriod (ldr w))]"
  by (simp add: flush_def rotate_def startIdleFlushMonitor_def Let_def)

lemma flush_with_empty_buffer:
  "numberOfEventsInFile (ldr w) = 0 \<Longrightarrow>
   fileName (ldr (flush ts w)) = fileName (ldr w)
   \<and> numberOfEventsInFile (ldr (flush ts w)) = 0
   \<and> activeFlushOps (ldr (flush ts w)) = activeFlushOps (ldr w)
   \<and> pending (flush ts w) = pending w
   \<and> rotations (effects (flush ts w)) = rotations (effects w)"
  by (simp add: flush_empty startIdleFlushMonitor_def rotations_append)

text \<open>
  The paths inside the loader keep at most the timer armed whose handle the loader holds:
  the threshold check clears it before it enters \<^verbatim>\<open>flush\<close>, and a timer that fires is
  no longer armed when \<^verbatim>\<open>flush\<close> arms the next.
\<close>

lemma step_timer_inv:
  "step i w = Some w' \<Longrightarrow> \<not> from_outside i \<Longrightarrow> timer_inv w \<Longrightarrow> timer_inv w'"
proof (cases i)
  case (Insert row t1 t2)
  assume "step i w = Some w'" "timer_inv w"
  with Insert show ?thesis
    by (cases "threshold (ldr w) \<le> int (numberOfEventsInFile (ldr w)) + 1")
       (auto simp: timer_inv_def insert_row_below insert_row_reached)
next
  case (TimerFires h t1 t2)
  assume "step i w = Some w'" "timer_inv w"
  with TimerFires show ?thesis
    by (auto simp: timer_inv_def timers_flush ref_flush split: if_splits)
next
  case (Complete n e p)
  assume "step i w = Some w'" "timer_inv w"
  with Complete show ?thesis
    by (auto simp: timer_inv_def timers_invoke ref_invoke split: if_splits)
next
  case Close
  assume "step i w = Some w'" "timer_inv w"
  with Close show ?thesis
    by (auto simp: timer_inv_def close_def clearTimeout_def Let_def)
next
  case (CallFlush t1 t2)
  assume "\<not> from_outside i"
  with CallFlush show ?thesis by simp
next
  case CallStartIdleFlushMonitor
  assume "\<not> from_outside i"
  with CallStartIdleFlushMonitor show ?thesis by simp
qed

lemma run_timer_inv:
  "run ins w = Some w' \<Longrightarrow> \<forall>i\<in>set ins. \<not> from_outside i \<Longrightarrow> timer_inv w \<Longrightarrow> timer_inv w'"
proof (induction ins arbitrary: w)
  case Nil
  then show ?case by simp
next
  case (Cons i ins)
  then show ?case by (auto split: option.splits dest: step_timer_inv)
qed

lemma timer_inv_init: "timer_inv (RedshiftBulkInsert opts p now)"
  by (simp add: timer_inv_def RedshiftBulkInsert_def startIdleFlushMonitor_def Let_def)

text \<open>
  Claim C5 fails on the code. A call of \<^verbatim>\<open>flush\<close> with a zero buffer counter performs
  no rotation and arms one new idle timer, as the claim says; but \<^verbatim>\<open>flush\<close> and
  \<^verbatim>\<open>startIdleFlushMonitor\<close> overwrite the one handle the loader holds without
  cancelling the timer behind it. On a loader just constructed, whose idle timer is armed,
  a call of the public \<^verbatim>\<open>flush\<close> (or of the public \<^verbatim>\<open>startIdleFlushMonitor\<close>) leaves
  two idle timers armed, and \<^verbatim>\<open>close\<close> afterwards cancels only the later one.
\<close>

theorem direct_flush_leaves_two_timers:
  "numberOfEventsInFile (ldr example_world) = 0
   \<and> timers example_world = [0]
   \<and> run [CallFlush 2 3] example_world = Some (flush (2, 3) example_world)
   \<and> rotations (effects (flush (2, 3) example_world)) = rotations (effects example_world)
   \<and> timers (flush (2, 3) example_world) = [0, 1]
   \<and> \<not> length (timers (flush (2, 3) example_world)) \<le> 1
   \<and> map_option timers (run [CallFlush 2 3, Close] example_world) = Some [0]
   \<and> map_option timers (run [CallStartIdleFlushMonitor] example_world) = Some [0, 1]"
  by (simp add: example_world_eq flush_def startIdleFlushMonitor_def close_def clearTimeout_def
      Let_def)

section \<open>Claims about the flush operation\<close>

lemma invoke_emits:
  "\<exists>new. emitted (effects (invoke cb e p w)) = emitted (effects w) @ new
     \<and> (\<forall>ev\<in>set new. ev_third ev = [] \<and> ev_loader ev = ldr (invoke cb e p w)
           \<and> ev_err ev = e \<and> ev_start ev = cb_start cb
           \<and> ev_result ev = (case cb of OnRemoved s \<Rightarrow> Undefined | _ \<Rightarrow> p))"
  by (cases cb; cases e) (simp_all add: callback_defs Let_def emitted_append)

lemma emitted_flush: "emitted (effects (flush ts w)) = emitted (effects w)"
  by (simp add: flush_def rotate_def startIdleFlushMonitor_def Let_def emitted_append)

lemma emitted_insert_row: "emitted (effects (insert_row row ts w)) = emitted (effects w)"
  by (cases "threshold (ldr w) \<le> int (numberOfEventsInFile (ldr w)) + 1")
     (simp_all add: insert_row_below insert_row_reached emitted_append)

lemma emitted_close: "emitted (effects (close w)) = emitted (effects w)"
  by (simp add: close_def clearTimeout_def Let_def emitted_append)

lemma step_emits:
  assumes "step i w = Some w'"
  shows "\<exists>new. emitted (effects w') = emitted (effects w) @ new
     \<and> (\<forall>ev\<in>set new. ev_third ev = [] \<and> ev_loader ev = ldr w'
           \<and> (\<exists>n e p. i = Complete n e p \<and> n < length (pending w)
                 \<and> ev_err ev = e \<and> ev_start ev = cb_start (pending w ! n)
                 \<and> ev_result ev = (case pending w ! n of OnRemoved s \<Rightarrow> Undefined | _ \<Rightarrow> p)))"
proof (cases i)
  case (Insert row t1 t2)
  with assms have "emitted (effects w') = emitted (effects w) @ []"
    by (auto simp: emitted_insert_row)
  then show ?thesis by (intro exI [of _ "[]"]) simp
next
  case (TimerFires h t1 t2)
  with assms have "emitted (effects w') = emitted (effects w) @ []"
    by (auto simp: emitted_flush split: if_splits)
  then show ?thesis by (intro exI [of _ "[]"]) simp
next
  case (Complete n e p)
  let ?w0 = "w\<lparr>pending := take n (pending w) @ drop (Suc n) (pending w)\<rparr>"
  from assms Complete have n: "n < length (pending w)" and w': "w' = invoke (pending w ! n) e p ?w0"
    by (auto split: if_splits)
  from invoke_emits [of "pending w ! n" e p ?w0] obtain new where
    new: "emitted (effects w') = emitted (effects w) @ new"
      "\<forall>ev\<in>set new. ev_third ev = [] \<and> ev_loader ev = ldr w'
           \<and> ev_err ev = e \<and> ev_start ev = cb_start (pending w ! n)
           \<and> ev_result ev = (case pending w ! n of OnRemoved s \<Rightarrow> Undefined | _ \<Rightarrow> p)"
    unfolding w' by auto
  with n Complete show ?thesis by (intro exI [of _ new]) auto
next
  case Close
  with assms have "emitted (effects w') = emitted (effects w) @ []"
    by (auto simp: emitted_close)
  then show ?thesis by (intro exI [of _ "[]"]) simp
next
  case (CallFlush t1 t2)
  with assms have "emitted (effects w') = emitted (effects w) @ []"
    by (auto simp: emitted_flush)
  then show ?thesis by (intro exI [of _ "[]"]) simp
next
  case CallStartIdleFlushMonitor
  with assms have "emitted (effects w') = emitted (effects w) @ []"
    by (auto simp: startIdleFlushMonitor_def emitted_append)
  then show ?thesis by (intro exI [of _ "[]"]) simp
qed

text \<open>
  Claim C3, as the code has it. Every \<^verbatim>\<open>flush\<close> event carries, in order: the error or
  null, the result payload, the empty string, the start time stamp of the operation, and
  the loader. Events are emitted only when an outstanding request completes; the error is
  the one of the completion, the start time stamp the one bound into its callback, and the
  payload the one of the completion (undefined for the deletion of the file).
\<close>

theorem flush_event_arguments:
  "emitted (effects (decrimentActiveFlushOpsAndEmitFlushEvent start e result w))
     = emitted (effects w) @
         [\<lparr>ev_err = e, ev_result = result, ev_third = [], ev_start = start,
           ev_loader = ldr (decrimentActiveFlushOpsAndEmitFlushEvent start e result w)\<rparr>]
   \<and> (step i w = Some w' \<longrightarrow>
        (\<exists>new. emitted (effects w') = emitted (effects w) @ new
           \<and> (\<forall>ev\<in>set new. ev_third ev = [] \<and> ev_loader ev = ldr w'
                 \<and> (\<exists>n x p. i = Complete n x p \<and> n < length (pending w)
                       \<and> ev_err ev = x \<and> ev_start ev = cb_start (pending w ! n)
                       \<and> ev_result ev =
                           (case pending w ! n of OnRemoved s \<Rightarrow> Undefined | _ \<Rightarrow> p)))))"
proof -
  have "emitted (effects (decrimentActiveFlushOpsAndEmitFlushEvent start e result w))
     = emitted (effects w) @
         [\<lparr>ev_err = e, ev_result = result, ev_third = [], ev_start = start,
           ev_loader = ldr (decrimentActiveFlushOpsAndEmitFlushEvent start e result w)\<rparr>]"
    by (simp add: decrimentActiveFlushOpsAndEmitFlushEvent_def Let_def emitted_append)
  then show ?thesis using step_emits [of i w w'] by blast
qed

lemma example_inserted:
  "insert_row [JInt 1] (5, 6) example_world =
     \<lparr>ldr = \<lparr>tableName = ''t'', fieldList = [''a'', ''b''], pathToLogs = ''/var/log'',
             idleFlushPeriod = 10000, threshold = 1, awsBucketName = ''bk'',
             awsAccessKeyId = ''ID'', awsSecretAccessKey = ''SECRET'', pid = 7,
             numberOfEventsInFile = 0, activeFlushOps = 1, fileName = ''t_5_7.log'', ref = 1\<rparr>,
      effects = [FileOpen ''/var/log/t_1_7.log'', SetTimeout 0 10000,
                 FileWrite [CHR ''1'', CHR 0x0A], ClearTimeout 0,
                 FileSetup ''/var/log/t_5_7.log'',
                 ReadFile ''/var/log/t_1_7.log'' (SendToS3 ''t_1_7.log'' 6),
                 SetTimeout 1 10000],
      pending = [SendToS3 ''t_1_7.log'' 6], timers = [1], nextHandle = 2\<rparr>"
  by (subst insert_row_reached)
     (simp_all add: example_world_eq getLogFileName_def path_join_def SUFFIX_def NEWLINE_def
       rowToLine_spec dec_small digit_def DELIMITER_def)

theorem flush_event_arguments_witness:
  "step (Complete 0 (Some ''ENOENT'') Undefined) (insert_row [JInt 1] (5, 6) example_world)
     = Some (sendToS3 ''t_1_7.log'' 6 (Some ''ENOENT'') Undefined
              ((insert_row [JInt 1] (5, 6) example_world)\<lparr>pending := []\<rparr>))
   \<and> map (\<lambda>ev. (ev_err ev, ev_result ev, ev_third ev, ev_start ev))
        (emitted (effects (sendToS3 ''t_1_7.log'' 6 (Some ''ENOENT'') Undefined
              ((insert_row [JInt 1] (5, 6) example_world)\<lparr>pending := []\<rparr>))))
       = [(Some ''ENOENT'', Undefined, [], 6)]"
proof -
  let ?w = "insert_row [JInt 1] (5, 6) example_world"
  let ?w' = "sendToS3 ''t_1_7.log'' 6 (Some ''ENOENT'') Undefined (?w\<lparr>pending := []\<rparr>)"
  have s: "step (Complete 0 (Some ''ENOENT'') Undefined) ?w = Some ?w'"
    by (simp add: example_inserted)
  have none: "emitted (effects ?w) = []"
    by (simp add: example_inserted)
  have one: "length (emitted (effects ?w')) = 1"
    by (simp add: example_inserted sendToS3_def decrimentActiveFlushOpsAndEmitFlushEvent_def
        Let_def)
  have p: "pending ?w ! 0 = SendToS3 ''t_1_7.log'' 6"
    by (simp add: example_inserted)
  from flush_event_arguments
      [where i = "Complete 0 (Some ''ENOENT'') Undefined" and w = ?w and w' = ?w'] s none
  obtain new where new: "emitted (effects ?w') = new"
    "\<forall>ev\<in>set new. ev_third ev = [] \<and> ev_err ev = Some ''ENOENT''
        \<and> ev_start ev = cb_start (pending ?w ! 0)
        \<and> ev_result ev = (case pending ?w ! 0 of OnRemoved s \<Rightarrow> Undefined | _ \<Rightarrow> Undefined)"
    by auto
  from one new(1) obtain ev where ev: "new = [ev]"
    by (cases new) auto
  with new(2) p have "ev_third ev = [] \<and> ev_err ev = Some ''ENOENT'' \<and> ev_start ev = 6
      \<and> ev_result ev = Undefined"
    by simp
  with new(1) ev s show ?thesis by simp
qed

text \<open>
  The event of a flush operation on the rotated file \<^verbatim>\<open>t_1_7.log\<close> whose read fails: its
  third argument is the empty string, not the identifier of the file, so the claim as
  stated fails.
\<close>

theorem flush_event_lacks_file_identifier:
  "pending (insert_row [JInt 1] (5, 6) example_world) = [SendToS3 ''t_1_7.log'' 6]
   \<and> map (\<lambda>ev. (ev_err ev, ev_third ev, ev_start ev))
        (emitted (effects (invoke (SendToS3 ''t_1_7.log'' 6) (Some ''ENOENT'') Undefined
           ((insert_row [JInt 1] (5, 6) example_world)\<lparr>pending := []\<rparr>))))
       = [(Some ''ENOENT'', [], 6)]
   \<and> [] \<noteq> ''t_1_7.log''"
  by (simp add: example_inserted sendToS3_def decrimentActiveFlushOpsAndEmitFlushEvent_def Let_def)

lemma unlinks_append: "unlinks (xs @ ys) = unlinks xs @ unlinks ys"
  by (induction xs rule: unlinks.induct) auto

lemma unlinks_invoke:
  "unlinks (effects (invoke cb e p w)) = unlinks (effects w) @ deletion_of cb e (ldr w)"
  by (cases cb; cases e) (simp_all add: callback_defs Let_def unlinks_append)

lemma step_unlinks:
  assumes "step i w = Some w'"
  shows "unlinks (effects w') = unlinks (effects w) @
          (case i of
             Complete n e p \<Rightarrow> deletion_of (pending w ! n) e (ldr w)
           | _ \<Rightarrow> [])"
proof (cases i)
  case (Insert row t1 t2)
  with assms show ?thesis
    by (cases "threshold (ldr w) \<le> int (numberOfEventsInFile (ldr w)) + 1")
       (auto simp: insert_row_below insert_row_reached unlinks_append)
next
  case (TimerFires h t1 t2)
  with assms show ?thesis
    by (auto simp: flush_def rotate_def startIdleFlushMonitor_def Let_def unlinks_append
        split: if_splits)
next
  case (Complete n e p)
  with assms show ?thesis by (auto simp: unlinks_invoke split: if_splits)
next
  case Close
  with assms show ?thesis by (auto simp: close_def clearTimeout_def Let_def unlinks_append)
next
  case (CallFlush t1 t2)
  with assms show ?thesis
    by (auto simp: flush_def rotate_def startIdleFlushMonitor_def Let_def unlinks_append)
next
  case CallStartIdleFlushMonitor
  with assms show ?thesis by (auto simp: startIdleFlushMonitor_def unlinks_append)
qed

text \<open>
  Claim C2. A failure of the read stage or of the upload stage is logged and ends the
  operation with that error: no request is issued, so no later stage runs and the deletion
  of the file is never requested. A successful read issues the upload only. Once the
  upload has succeeded, the deletion of the local file is requested at once, before the
  load command is issued and so without waiting for its outcome; a failure of the load
  command is logged and ends the operation with that error, and nothing is done about the
  file. Of all that can happen to a loader, only the completion of an upload without error
  requests a deletion, and it requests the deletion of the file it uploaded.
\<close>

theorem failure_keeps_file_and_upload_success_deletes_it:
  "effects (invoke (SendToS3 file start) (Some x) body w)
     = effects w @
         [LogError x,
          Emit \<lparr>ev_err = Some x, ev_result = body, ev_third = [], ev_start = start,
                ev_loader = (ldr w)\<lparr>activeFlushOps := activeFlushOps (ldr w) - 1\<rparr>\<rparr>]
   \<and> pending (invoke (SendToS3 file start) (Some x) body w) = pending w
   \<and> effects (invoke (SendToS3 file start) None body w)
       = effects w @ [PutObject body file (awsBucketName (ldr w)) (OnSentToS3 file start)]
   \<and> pending (invoke (SendToS3 file start) None body w) = pending w @ [OnSentToS3 file start]
   \<and> effects (invoke (OnSentToS3 file start) (Some x) d w)
       = effects w @
           [LogError x,
            Emit \<lparr>ev_err = Some x, ev_result = d, ev_third = [], ev_start = start,
                  ev_loader = (ldr w)\<lparr>activeFlushOps := activeFlushOps (ldr w) - 1\<rparr>\<rparr>]
   \<and> pending (invoke (OnSentToS3 file start) (Some x) d w) = pending w
   \<and> effects (invoke (OnSentToS3 file start) None d w)
       = effects w @
           [Unlink (path_join (pathToLogs (ldr w)) file) (OnRemoved start),
            Query (getCopyQuery (ldr w) file) (OnSentCopyToRedshift start)]
   \<and> pending (invoke (OnSentToS3 file start) None d w)
       = pending w @ [OnRemoved start, OnSentCopyToRedshift start]
   \<and> effects (invoke (OnSentCopyToRedshift start) (Some x) r w)
       = effects w @
           [LogError x,
            Emit \<lparr>ev_err = Some x, ev_result = r, ev_third = [], ev_start = start,
                  ev_loader = (ldr w)\<lparr>activeFlushOps := activeFlushOps (ldr w) - 1\<rparr>\<rparr>]
   \<and> pending (invoke (OnSentCopyToRedshift start) (Some x) r w) = pending w
   \<and> (step i w = Some w' \<longrightarrow>
        unlinks (effects w') = unlinks (effects w) @
          (case i of
             Complete n e p \<Rightarrow> deletion_of (pending w ! n) e (ldr w)
           | _ \<Rightarrow> []))"
  using step_unlinks [of i w w'] by (simp add: callback_defs Let_def)

theorem failure_keeps_file_and_upload_success_deletes_it_witness:
  "effects (invoke (OnSentToS3 ''t_1_7.log'' 6) (Some ''AccessDenied'') Undefined example_world)
     = [FileOpen ''/var/log/t_1_7.log'', SetTimeout 0 10000, LogError ''AccessDenied'',
        Emit \<lparr>ev_err = Some ''AccessDenied'', ev_result = Undefined, ev_third = [], ev_start = 6,
              ev_loader = (ldr example_world)\<lparr>activeFlushOps := - 1\<rparr>\<rparr>]
   \<and> drop 2 (effects (invoke (OnSentToS3 ''t_1_7.log'' 6) None (S3Data ''ok'') example_world))
       = [Unlink ''/var/log/t_1_7.log'' (OnRemoved 6),
          Query (getCopyQuery (ldr example_world) ''t_1_7.log'') (OnSentCopyToRedshift 6)]
   \<and> step (Complete 0 (Some ''ENOENT'') Undefined) (insert_row [JInt 1] (5, 6) example_world)
       = Some (sendToS3 ''t_1_7.log'' 6 (Some ''ENOENT'') Undefined
                ((insert_row [JInt 1] (5, 6) example_world)\<lparr>pending := []\<rparr>))
   \<and> unlinks (effects (sendToS3 ''t_1_7.log'' 6 (Some ''ENOENT'') Undefined
                ((insert_row [JInt 1] (5, 6) example_world)\<lparr>pending := []\<rparr>))) = []"
proof -
  let ?w = "insert_row [JInt 1] (5, 6) example_world"
  let ?w' = "sendToS3 ''t_1_7.log'' 6 (Some ''ENOENT'') Undefined (?w\<lparr>pending := []\<rparr>)"
  have failed: "effects (invoke (OnSentToS3 ''t_1_7.log'' 6) (Some ''AccessDenied'') Undefined example_world)
     = [FileOpen ''/var/log/t_1_7.log'', SetTimeout 0 10000, LogError ''AccessDenied'',
        Emit \<lparr>ev_err = Some ''AccessDenied'', ev_result = Undefined, ev_third = [], ev_start = 6,
              ev_loader = (ldr example_world)\<lparr>activeFlushOps := - 1\<rparr>\<rparr>]"
    using failure_keeps_file_and_upload_success_deletes_it
      [of "''t_1_7.log''" 6 "''AccessDenied''" _ example_world Undefined]
    by (simp add: example_world_eq)
  have uploaded: "drop 2 (effects (invoke (OnSentToS3 ''t_1_7.log'' 6) None (S3Data ''ok'') example_world))
       = [Unlink ''/var/log/t_1_7.log'' (OnRemoved 6),
          Query (getCopyQuery (ldr example_world) ''t_1_7.log'') (OnSentCopyToRedshift 6)]"
    using failure_keeps_file_and_upload_success_deletes_it
      [of "''t_1_7.log''" 6 _ _ example_world "S3Data ''ok''"]
    by (simp add: example_world_eq path_join_def)
  have s: "step (Complete 0 (Some ''ENOENT'') Undefined) ?w = Some ?w'"
    by (simp add: example_inserted)
  have before: "unlinks (effects ?w) = []" and p: "pending ?w ! 0 = SendToS3 ''t_1_7.log'' 6"
    by (simp_all add: example_inserted)
  have "unlinks (effects ?w') = []"
    using failure_keeps_file_and_upload_success_deletes_it
      [where i = "Complete 0 (Some ''ENOENT'') Undefined" and w = ?w and w' = ?w'] s before p
    by simp
  with failed uploaded s show ?thesis by blast
qed

text \<open>
  Claim C1 fails on the code. One row is inserted into a loader that rotates at every
  row; the read, the upload, the deletion and the load command all succeed. The
  counter, incremented once by the rotation, is decremented by the completion of the
  deletion and again by the completion of the load command, and two events are emitted:
  the counter ends at \<open>-1\<close>, in either order of the two completions.
\<close>

theorem successful_flush_decrements_twice:
  "map_option (\<lambda>w. (activeFlushOps (ldr w), length (emitted (effects w)), rotations (effects w),
                     pending w))
     (run [Insert [JInt 1] 5 6,
           Complete 0 None (FileBody ''1''),
           Complete 0 None (S3Data ''ok''),
           Complete 0 None Undefined,
           Complete 0 None (QueryResult ''r'')] example_world)
     = Some (- 1, 2, 1, [])
   \<and> map_option (\<lambda>w. (activeFlushOps (ldr w), length (emitted (effects w)), rotations (effects w),
                     pending w))
     (run [Insert [JInt 1] 5 6,
           Complete 0 None (FileBody ''1''),
           Complete 0 None (S3Data ''ok''),
           Complete 1 None (QueryResult ''r''),
           Complete 0 None Undefined] example_world)
     = Some (- 1, 2, 1, [])"
  by (simp add: example_inserted callback_defs Let_def)

end
